theory Spec2Isabelle
  imports Main "HOL-Library.Word"
begin

section \<open>Text: Python strings as lists of code points\<close>

text \<open>
  A Python \<^verbatim>\<open>str\<close> is a sequence of Unicode code points, and \<^verbatim>\<open>len\<close>, slicing,
  \<^verbatim>\<open>split\<close> and \<^verbatim>\<open>strip\<close> all count code points. A code point is a natural
  number here and a string is a list of them. String literals of the source are written
  with \<open>lit\<close>, which maps each (ASCII) character of the literal to its code point.
\<close>

type_synonym codepoint = nat
type_synonym str = "codepoint list"

definition lit :: "string \<Rightarrow> str" where
  "lit s = map of_char s"

definition newline :: codepoint where
  "newline = 10"

definition space :: codepoint where
  "space = 32"

definition period :: codepoint where
  "period = 46"

text \<open>
  \<^verbatim>\<open>str.strip()\<close> without an argument removes the characters for which
  \<^verbatim>\<open>str.isspace\<close> holds: the ASCII ones (tab to carriage return, the four
  separators 0x1C to 0x1F, the space) and the Unicode ones (NEL, no-break space, Ogham
  space, the U+2000 block, line and paragraph separator, narrow no-break space, medium
  mathematical space, ideographic space).
\<close>

definition isspace :: "codepoint \<Rightarrow> bool" where
  "isspace c \<longleftrightarrow>
     (9 \<le> c \<and> c \<le> 13) \<or> (28 \<le> c \<and> c \<le> 32) \<or> c = 133 \<or> c = 160 \<or>
     c = 5760 \<or> (8192 \<le> c \<and> c \<le> 8202) \<or> c = 8232 \<or> c = 8233 \<or>
     c = 8239 \<or> c = 8287 \<or> c = 12288"

definition lstrip :: "str \<Rightarrow> str" where
  "lstrip s = dropWhile isspace s"

definition rstrip :: "str \<Rightarrow> str" where
  "rstrip s = rev (dropWhile isspace (rev s))"

definition strip :: "str \<Rightarrow> str" where
  "strip s = rstrip (lstrip s)"

text \<open>\<^verbatim>\<open>text.replace("\n", " ")\<close>: every newline becomes one space.\<close>

definition replace_newlines :: "str \<Rightarrow> str" where
  "replace_newlines s = map (\<lambda>c. if c = newline then space else c) s"

text \<open>
  \<^verbatim>\<open>s.split(sep)\<close> for a one-character separator: the pieces between the
  occurrences of the separator, empty pieces included; a string without the separator
  (the empty string too) gives one piece.
\<close>

fun split :: "codepoint \<Rightarrow> str \<Rightarrow> str list" where
  "split sep [] = [[]]"
| "split sep (c # cs) =
     (if c = sep then [] # split sep cs
      else (case split sep cs of
              [] \<Rightarrow> [[c]]
            | piece # pieces \<Rightarrow> (c # piece) # pieces))"

text \<open>\<^verbatim>\<open>sep.join(pieces)\<close>.\<close>

fun join :: "str \<Rightarrow> str list \<Rightarrow> str" where
  "join sep [] = []"
| "join sep [x] = x"
| "join sep (x # y # ys) = x @ sep @ join sep (y # ys)"

section \<open>The summarizer (src/main.py, simple\_summarize)\<close>

text \<open>
  \<^verbatim>\<open>
  def simple_summarize(text: str) -> str:
      sentences = [s.strip() for s in text.replace("\n", " ").split(".") if s.strip()]
      if not sentences:
          return "No content to summarize."
      selected = sentences[:5]
      return ". ".join(selected) + ("." if selected else "")
  \<close>
\<close>

definition sentences_of :: "str \<Rightarrow> str list" where
  "sentences_of text =
     map strip (filter (\<lambda>s. strip s \<noteq> []) (split period (replace_newlines text)))"

definition simple_summarize :: "str \<Rightarrow> str" where
  "simple_summarize text =
     (let sentences = sentences_of text in
      if sentences = [] then lit ''No content to summarize.''
      else (let selected = take 5 sentences in
            join (lit ''. '') selected @ (if selected \<noteq> [] then lit ''.'' else [])))"

text \<open>
  The summarizer as the specification words it: (1) replace every newline with a single
  space, (2) split on the period, (3) trim each fragment and discard the fragments that
  became empty, (4) no fragment left: the fixed text, (5) otherwise the first five
  fragments joined with period-space, and a period appended.
\<close>

definition spec_normalize :: "str \<Rightarrow> str" where
  "spec_normalize text = map (\<lambda>c. if c = newline then space else c) text"

definition spec_fragments :: "str \<Rightarrow> str list" where
  "spec_fragments text = filter (\<lambda>f. f \<noteq> []) (map strip (split period (spec_normalize text)))"

definition spec_summarize :: "str \<Rightarrow> str" where
  "spec_summarize text =
     (case spec_fragments text of
        [] \<Rightarrow> lit ''No content to summarize.''
      | f # fs \<Rightarrow> join [period, space] (take 5 (f # fs)) @ [period])"

section \<open>Record schemas (src/schemas.py)\<close>

text \<open>
  The four Pydantic models. A field declared \<^verbatim>\<open>Field(...)\<close> is required; a field
  declared \<^verbatim>\<open>Optional[str] = Field(None)\<close> may be absent. The only constraints
  beyond presence are \<^verbatim>\<open>min_items=2\<close> on \<^verbatim>\<open>Question.options\<close> and
  \<^verbatim>\<open>ge=0\<close> on \<^verbatim>\<open>Question.answer_index\<close>; no text field carries a length
  constraint.
\<close>

record Note =
  title :: str
  content :: str
  topic :: "str option"

text \<open>\<open>back\<close> is a reserved word of the prover; the field is \<open>back'\<close> here.\<close>

record Flashcard =
  front :: str
  back' :: str
  tag :: "str option"

record Question =
  question :: str
  options :: "str list"
  answer_index :: int
  question_tag :: "str option"

record Summary =
  file_name :: str
  raw_text :: str
  summary :: str

text \<open>
  A request body as it arrives, before validation: each field is absent (\<open>None\<close>) or
  carries a value of the declared type. (A value of another JSON type is refused by the
  framework's type check and is outside this model.)
\<close>

record NoteBody =
  title_in :: "str option"
  content_in :: "str option"
  topic_in :: "str option"

record FlashcardBody =
  front_in :: "str option"
  back_in :: "str option"
  tag_in :: "str option"

record QuestionBody =
  question_in :: "str option"
  options_in :: "str list option"
  answer_index_in :: "int option"
  question_tag_in :: "str option"

datatype validation_error =
  Missing string
| TooFewItems string nat
| NotGreaterEqual string int

definition required :: "string \<Rightarrow> 'a option \<Rightarrow> validation_error list" where
  "required name v = (case v of None \<Rightarrow> [Missing name] | Some _ \<Rightarrow> [])"

definition note_errors :: "NoteBody \<Rightarrow> validation_error list" where
  "note_errors b = required ''title'' (title_in b) @ required ''content'' (content_in b)"

definition validate_Note :: "NoteBody \<Rightarrow> validation_error list + Note" where
  "validate_Note b =
     (case (title_in b, content_in b) of
        (Some t, Some c) \<Rightarrow> Inr \<lparr>title = t, content = c, topic = topic_in b\<rparr>
      | _ \<Rightarrow> Inl (note_errors b))"

definition flashcard_errors :: "FlashcardBody \<Rightarrow> validation_error list" where
  "flashcard_errors b = required ''front'' (front_in b) @ required ''back'' (back_in b)"

definition validate_Flashcard :: "FlashcardBody \<Rightarrow> validation_error list + Flashcard" where
  "validate_Flashcard b =
     (case (front_in b, back_in b) of
        (Some f, Some k) \<Rightarrow> Inr \<lparr>front = f, back' = k, tag = tag_in b\<rparr>
      | _ \<Rightarrow> Inl (flashcard_errors b))"

definition question_errors :: "QuestionBody \<Rightarrow> validation_error list" where
  "question_errors b =
     required ''question'' (question_in b) @
     (case options_in b of
        None \<Rightarrow> [Missing ''options'']
      | Some os \<Rightarrow> if length os < 2 then [TooFewItems ''options'' 2] else []) @
     (case answer_index_in b of
        None \<Rightarrow> [Missing ''answer_index'']
      | Some i \<Rightarrow> if i < 0 then [NotGreaterEqual ''answer_index'' 0] else [])"

definition validate_Question :: "QuestionBody \<Rightarrow> validation_error list + Question" where
  "validate_Question b =
     (case (question_in b, options_in b, answer_index_in b) of
        (Some q, Some os, Some i) \<Rightarrow>
          if question_errors b = []
          then Inr \<lparr>question = q, options = os, answer_index = i,
                    question_tag = question_tag_in b\<rparr>
          else Inl (question_errors b)
      | _ \<Rightarrow> Inl (question_errors b))"

section \<open>Document store adapter\<close>

text \<open>
  \<^verbatim>\<open>from database import db, create_document, get_documents\<close>: the module
  \<^verbatim>\<open>database\<close> is part of the repository but not of the sources at hand, so the store
  and its two operations follow the specification (section 4.1).
\<close>

datatype document =
  NoteDoc Note
| FlashcardDoc Flashcard
| QuestionDoc Question
| SummaryDoc Summary

type_synonym ident = nat

text \<open>
  Modelled from the spec: the store behind \<^verbatim>\<open>database.db\<close>. ``Every stored document
  additionally receives a store-generated unique identifier on insertion'', ``each
  collection is independent and unordered except for insertion order'', and the store
  ``may be absent (degraded mode)''. \<open>failure\<close> is \<open>Some msg\<close> when the connection is
  unavailable or rejects the operation, \<open>msg\<close> being the StorageError's text;
  \<open>round_trips\<close> counts the storage round trips attempted so far.
\<close>

record store =
  failure :: "str option"
  collections :: "string \<Rightarrow> (ident \<times> document) list"
  next_id :: ident
  round_trips :: nat

datatype exn = StorageError str

text \<open>\<^verbatim>\<open>str(e)\<close>.\<close>

fun str_exn :: "exn \<Rightarrow> str" where
  "str_exn (StorageError msg) = msg"

text \<open>
  Modelled from the spec: the stable text rendering of a store-generated identifier
  (``identifiers are opaque to callers; the API surface always renders them as plain
  text''), here its decimal digits.
\<close>

function id_text :: "ident \<Rightarrow> str" where
  "id_text n = (if n < 10 then [48 + n] else id_text (n div 10) @ [48 + n mod 10])"
  by pat_completeness auto
termination
  by (relation "measure (\<lambda>n. n)") auto

text \<open>
  Modelled from the spec: \<^verbatim>\<open>create_document\<close> of the absent module \<^verbatim>\<open>database\<close>.
  ``insert(collectionName, record) -> id: appends one document to the named collection.
  Returns the newly assigned identifier, rendered as text. Fails with a StorageError if the
  underlying connection is unavailable or the write is rejected.''
\<close>

definition create_document :: "store \<Rightarrow> string \<Rightarrow> document \<Rightarrow> (exn + str) \<times> store" where
  "create_document st collection_name data =
     (case failure st of
        Some msg \<Rightarrow> (Inl (StorageError msg), st\<lparr>round_trips := Suc (round_trips st)\<rparr>)
      | None \<Rightarrow>
          (Inr (id_text (next_id st)),
           st\<lparr>collections := (collections st)
                  (collection_name := collections st collection_name @ [(next_id st, data)]),
              next_id := Suc (next_id st),
              round_trips := Suc (round_trips st)\<rparr>))"

text \<open>The value a document holds in a named text field, if it has the field and a value.\<close>

fun doc_field :: "document \<Rightarrow> string \<Rightarrow> str option" where
  "doc_field (NoteDoc n) k =
     (if k = ''title'' then Some (title n) else if k = ''content'' then Some (content n)
      else if k = ''topic'' then topic n else None)"
| "doc_field (FlashcardDoc c) k =
     (if k = ''front'' then Some (front c) else if k = ''back'' then Some (back' c)
      else if k = ''tag'' then tag c else None)"
| "doc_field (QuestionDoc q) k =
     (if k = ''question'' then Some (question q)
      else if k = ''tag'' then question_tag q else None)"
| "doc_field (SummaryDoc s) k =
     (if k = ''file_name'' then Some (file_name s) else if k = ''text'' then Some (raw_text s)
      else if k = ''summary'' then Some (summary s) else None)"

type_synonym filter_dict = "(string \<times> str) list"

definition matches :: "filter_dict \<Rightarrow> document \<Rightarrow> bool" where
  "matches flt d = list_all (\<lambda>(k, v). doc_field d k = Some v) flt"

fun limited :: "int option \<Rightarrow> 'a list \<Rightarrow> 'a list" where
  "limited None xs = xs"
| "limited (Some n) xs = take (nat n) xs"

text \<open>
  Modelled from the spec: \<^verbatim>\<open>get_documents\<close> of the absent module \<^verbatim>\<open>database\<close>.
  ``query(collectionName, filter, limit): filter is a mapping from field name to expected
  value. Empty filter matches all documents in the collection. When a limit is given, at
  most that many documents are returned. Fails with a StorageError on connection loss.''
\<close>

definition get_documents ::
  "store \<Rightarrow> string \<Rightarrow> filter_dict \<Rightarrow> int option \<Rightarrow> (exn + (ident \<times> document) list) \<times> store" where
  "get_documents st collection_name flt limit =
     (case failure st of
        Some msg \<Rightarrow> (Inl (StorageError msg), st\<lparr>round_trips := Suc (round_trips st)\<rparr>)
      | None \<Rightarrow>
          (Inr (limited limit (filter (\<lambda>(i, d). matches flt d) (collections st collection_name))),
           st\<lparr>round_trips := Suc (round_trips st)\<rparr>))"

section \<open>Uploads and their decoding\<close>

type_synonym byte = "8 word"

text \<open>
  \<^verbatim>\<open>content_bytes.decode(errors="ignore")\<close>: UTF-8 decoding that never raises. A byte
  that cannot start a sequence is dropped; when a continuation byte is wrong, the bytes
  read so far are dropped and decoding resumes at the offending byte; a sequence cut off
  by the end of the data is dropped. Overlong forms, surrogates and values above U+10FFFF
  are excluded by the bounds on the second byte.
\<close>

definition continuation :: "nat \<Rightarrow> bool" where
  "continuation b \<longleftrightarrow> 128 \<le> b \<and> b \<le> 191"

definition second_of_three :: "nat \<Rightarrow> nat \<Rightarrow> bool" where
  "second_of_three b b1 \<longleftrightarrow>
     continuation b1 \<and> (if b1 < 160 then b \<noteq> 224 else b \<noteq> 237)"

definition second_of_four :: "nat \<Rightarrow> nat \<Rightarrow> bool" where
  "second_of_four b b1 \<longleftrightarrow>
     continuation b1 \<and> (if b1 < 144 then b \<noteq> 240 else b \<noteq> 244)"

fun utf8_ignore :: "nat list \<Rightarrow> str" where
  "utf8_ignore [] = []"
| "utf8_ignore (b # bs) =
     (if b < 128 then b # utf8_ignore bs
      else if b < 194 then utf8_ignore bs
      else if b < 224 then
        (case bs of
           [] \<Rightarrow> []
         | b1 # r1 \<Rightarrow>
             if continuation b1 then ((b - 192) * 64 + (b1 - 128)) # utf8_ignore r1
             else utf8_ignore bs)
      else if b < 240 then
        (case bs of
           [] \<Rightarrow> []
         | b1 # r1 \<Rightarrow>
             if \<not> second_of_three b b1 then utf8_ignore bs
             else (case r1 of
                     [] \<Rightarrow> []
                   | b2 # r2 \<Rightarrow>
                       if continuation b2
                       then ((b - 224) * 4096 + (b1 - 128) * 64 + (b2 - 128)) # utf8_ignore r2
                       else utf8_ignore r1))
      else if b < 245 then
        (case bs of
           [] \<Rightarrow> []
         | b1 # r1 \<Rightarrow>
             if \<not> second_of_four b b1 then utf8_ignore bs
             else (case r1 of
                     [] \<Rightarrow> []
                   | b2 # r2 \<Rightarrow>
                       if \<not> continuation b2 then utf8_ignore r1
                       else (case r2 of
                               [] \<Rightarrow> []
                             | b3 # r3 \<Rightarrow>
                                 if continuation b3
                                 then ((b - 240) * 262144 + (b1 - 128) * 4096 +
                                       (b2 - 128) * 64 + (b3 - 128)) # utf8_ignore r3
                                 else utf8_ignore r2)))
      else utf8_ignore bs)"

definition decode :: "byte list \<Rightarrow> str" where
  "decode content_bytes = utf8_ignore (map unat content_bytes)"

text \<open>The uploaded file: its name and the bytes \<^verbatim>\<open>await file.read()\<close> returns.\<close>

record UploadFile =
  filename :: str
  file_bytes :: "byte list"

section \<open>HTTP endpoint layer (src/main.py)\<close>

datatype payload =
  IdOnly str
| IdSummary str str
| Documents "(str \<times> document) list"

text \<open>
  What a request ends in: the handler's return value, the framework's refusal of a body
  that fails its schema (before the handler runs), or the \<^verbatim>\<open>HTTPException\<close> the handler
  raises, with its status code and detail.
\<close>

datatype response =
  Return payload
| RequestValidationError "validation_error list"
| HTTPException nat str

text \<open>
  Every handler has the shape
  \<^verbatim>\<open>
  try:
      ...
  except Exception as e:
      raise HTTPException(status_code=500, detail=str(e))
  \<close>
  The try block of handler \<open>h\<close> is \<open>h_try\<close>: it ends in an exception or a payload, and
  the store as it left it. \<open>except_500\<close> is the except clause.
\<close>

definition except_500 :: "(exn + payload) \<times> store \<Rightarrow> response \<times> store" where
  "except_500 r =
     (case r of
        (Inl e, st') \<Rightarrow> (HTTPException 500 (str_exn e), st')
      | (Inr v, st') \<Rightarrow> (Return v, st'))"

text \<open>
  \<^verbatim>\<open>
  inserted_id = create_document("note", note)
  return {"id": inserted_id}
  \<close>
\<close>

definition create_note_try :: "store \<Rightarrow> Note \<Rightarrow> (exn + payload) \<times> store" where
  "create_note_try st note =
     (case create_document st ''note'' (NoteDoc note) of
        (Inl e, st') \<Rightarrow> (Inl e, st')
      | (Inr inserted_id, st') \<Rightarrow> (Inr (IdOnly inserted_id), st'))"

definition create_note :: "store \<Rightarrow> Note \<Rightarrow> response \<times> store" where
  "create_note st note = except_500 (create_note_try st note)"

definition create_flashcard_try :: "store \<Rightarrow> Flashcard \<Rightarrow> (exn + payload) \<times> store" where
  "create_flashcard_try st fcard =
     (case create_document st ''flashcard'' (FlashcardDoc fcard) of
        (Inl e, st') \<Rightarrow> (Inl e, st')
      | (Inr inserted_id, st') \<Rightarrow> (Inr (IdOnly inserted_id), st'))"

definition create_flashcard :: "store \<Rightarrow> Flashcard \<Rightarrow> response \<times> store" where
  "create_flashcard st fcard = except_500 (create_flashcard_try st fcard)"

definition create_question_try :: "store \<Rightarrow> Question \<Rightarrow> (exn + payload) \<times> store" where
  "create_question_try st q =
     (case create_document st ''question'' (QuestionDoc q) of
        (Inl e, st') \<Rightarrow> (Inl e, st')
      | (Inr inserted_id, st') \<Rightarrow> (Inr (IdOnly inserted_id), st'))"

definition create_question :: "store \<Rightarrow> Question \<Rightarrow> response \<times> store" where
  "create_question st q = except_500 (create_question_try st q)"

text \<open>
  \<^verbatim>\<open>
  filter_dict = {"topic": topic} if topic else {}
  notes = get_documents("note", filter_dict)
  for n in notes:
      n["_id"] = str(n["_id"])
  return notes
  \<close>
  \<^verbatim>\<open>if topic\<close> is Python's truth test: \<^verbatim>\<open>None\<close> and the empty string are both false.
\<close>

definition truthy :: "str option \<Rightarrow> bool" where
  "truthy v = (case v of None \<Rightarrow> False | Some s \<Rightarrow> s \<noteq> [])"

definition filter_on :: "string \<Rightarrow> str option \<Rightarrow> filter_dict" where
  "filter_on name v = (case v of None \<Rightarrow> [] | Some s \<Rightarrow> if truthy v then [(name, s)] else [])"

definition ids_to_str :: "(ident \<times> document) list \<Rightarrow> (str \<times> document) list" where
  "ids_to_str docs = map (\<lambda>(i, d). (id_text i, d)) docs"

definition list_try ::
  "store \<Rightarrow> string \<Rightarrow> filter_dict \<Rightarrow> int option \<Rightarrow> (exn + payload) \<times> store" where
  "list_try st collection_name flt limit =
     (case get_documents st collection_name flt limit of
        (Inl e, st') \<Rightarrow> (Inl e, st')
      | (Inr docs, st') \<Rightarrow> (Inr (Documents (ids_to_str docs)), st'))"

definition list_notes_try :: "store \<Rightarrow> str option \<Rightarrow> (exn + payload) \<times> store" where
  "list_notes_try st topic_param =
     (let filter_dict = filter_on ''topic'' topic_param in list_try st ''note'' filter_dict None)"

definition list_notes :: "store \<Rightarrow> str option \<Rightarrow> response \<times> store" where
  "list_notes st topic_param = except_500 (list_notes_try st topic_param)"

definition list_flashcards_try :: "store \<Rightarrow> str option \<Rightarrow> (exn + payload) \<times> store" where
  "list_flashcards_try st tag_param =
     (let filter_dict = filter_on ''tag'' tag_param in list_try st ''flashcard'' filter_dict None)"

definition list_flashcards :: "store \<Rightarrow> str option \<Rightarrow> response \<times> store" where
  "list_flashcards st tag_param = except_500 (list_flashcards_try st tag_param)"

definition list_questions_try :: "store \<Rightarrow> str option \<Rightarrow> (exn + payload) \<times> store" where
  "list_questions_try st tag_param =
     (let filter_dict = filter_on ''tag'' tag_param in list_try st ''question'' filter_dict None)"

definition list_questions :: "store \<Rightarrow> str option \<Rightarrow> response \<times> store" where
  "list_questions st tag_param = except_500 (list_questions_try st tag_param)"

text \<open>\<^verbatim>\<open>docs = get_documents("summary", {}, limit)\<close>, the limit defaulting to 20.\<close>

definition list_summaries_try :: "store \<Rightarrow> int \<Rightarrow> (exn + payload) \<times> store" where
  "list_summaries_try st limit = list_try st ''summary'' [] (Some limit)"

definition list_summaries :: "store \<Rightarrow> int \<Rightarrow> response \<times> store" where
  "list_summaries st limit = except_500 (list_summaries_try st limit)"

text \<open>
  \<^verbatim>\<open>
  content_bytes = await file.read()
  text = content_bytes.decode(errors="ignore")
  if not text or len(text.strip()) == 0:
      text = "(Binary file uploaded; text extraction not available in demo)"
  summary = simple_summarize(text)
  data = Summary(file_name=file.filename, text=text[:10000], summary=summary)
  inserted_id = create_document("summary", data)
  return {"id": inserted_id, "summary": summary}
  \<close>
  \<open>upload_text\<close> is the value of \<^verbatim>\<open>text\<close> after the \<^verbatim>\<open>if\<close>.
\<close>

definition placeholder :: str where
  "placeholder = lit ''(Binary file uploaded; text extraction not available in demo)''"

definition upload_text :: "UploadFile \<Rightarrow> str" where
  "upload_text file =
     (let content_bytes = file_bytes file;
          decoded = decode content_bytes
      in if decoded = [] \<or> length (strip decoded) = 0 then placeholder else decoded)"

definition summarize_file_try :: "store \<Rightarrow> UploadFile \<Rightarrow> (exn + payload) \<times> store" where
  "summarize_file_try st file =
     (let txt = upload_text file;
          summ = simple_summarize txt;
          data = \<lparr>file_name = filename file, raw_text = take 10000 txt, summary = summ\<rparr>
      in case create_document st ''summary'' (SummaryDoc data) of
           (Inl e, st') \<Rightarrow> (Inl e, st')
         | (Inr inserted_id, st') \<Rightarrow> (Inr (IdSummary inserted_id summ), st'))"

definition summarize_file :: "store \<Rightarrow> UploadFile \<Rightarrow> response \<times> store" where
  "summarize_file st file = except_500 (summarize_file_try st file)"

text \<open>
  The create endpoints as a client meets them: the body is validated against the
  handler's parameter type first, and only a valid record reaches the handler.
\<close>

definition post_notes :: "store \<Rightarrow> NoteBody \<Rightarrow> response \<times> store" where
  "post_notes st body =
     (case validate_Note body of
        Inl errors \<Rightarrow> (RequestValidationError errors, st)
      | Inr note \<Rightarrow> create_note st note)"

definition post_flashcards :: "store \<Rightarrow> FlashcardBody \<Rightarrow> response \<times> store" where
  "post_flashcards st body =
     (case validate_Flashcard body of
        Inl errors \<Rightarrow> (RequestValidationError errors, st)
      | Inr fcard \<Rightarrow> create_flashcard st fcard)"

definition post_questions :: "store \<Rightarrow> QuestionBody \<Rightarrow> response \<times> store" where
  "post_questions st body =
     (case validate_Question body of
        Inl errors \<Rightarrow> (RequestValidationError errors, st)
      | Inr q \<Rightarrow> create_question st q)"

text \<open>The eight operations of the endpoint table, each with its validated input.\<close>

datatype operation =
  CreateNote Note
| ListNotes "str option"
| CreateFlashcard Flashcard
| ListFlashcards "str option"
| CreateQuestion Question
| ListQuestions "str option"
| SummarizeUpload UploadFile
| ListSummaries int

fun try_block :: "store \<Rightarrow> operation \<Rightarrow> (exn + payload) \<times> store" where
  "try_block st (CreateNote note) = create_note_try st note"
| "try_block st (ListNotes topic_param) = list_notes_try st topic_param"
| "try_block st (CreateFlashcard fcard) = create_flashcard_try st fcard"
| "try_block st (ListFlashcards tag_param) = list_flashcards_try st tag_param"
| "try_block st (CreateQuestion q) = create_question_try st q"
| "try_block st (ListQuestions tag_param) = list_questions_try st tag_param"
| "try_block st (SummarizeUpload file) = summarize_file_try st file"
| "try_block st (ListSummaries limit) = list_summaries_try st limit"

fun handler :: "store \<Rightarrow> operation \<Rightarrow> response \<times> store" where
  "handler st (CreateNote note) = create_note st note"
| "handler st (ListNotes topic_param) = list_notes st topic_param"
| "handler st (CreateFlashcard fcard) = create_flashcard st fcard"
| "handler st (ListFlashcards tag_param) = list_flashcards st tag_param"
| "handler st (CreateQuestion q) = create_question st q"
| "handler st (ListQuestions tag_param) = list_questions st tag_param"
| "handler st (SummarizeUpload file) = summarize_file st file"
| "handler st (ListSummaries limit) = list_summaries st limit"

text \<open>Stores and inputs the examples below run on.\<close>

definition empty_store :: store where
  "empty_store = \<lparr>failure = None, collections = (\<lambda>_. []), next_id = 0, round_trips = 0\<rparr>"

definition unavailable_store :: store where
  "unavailable_store = empty_store\<lparr>failure := Some (lit ''Database not available'')\<rparr>"

text \<open>
  A sentence as the summarizer selects it: not empty, already trimmed, and free of periods
  and newlines.
\<close>

definition sentence :: "str \<Rightarrow> bool" where
  "sentence s \<longleftrightarrow> s \<noteq> [] \<and> strip s = s \<and> period \<notin> set s \<and> newline \<notin> set s"


text \<open>An upload of non-text bytes, one of whitespace only, and one of 10004 characters.\<close>

definition binary_upload :: UploadFile where
  "binary_upload = \<lparr>filename = lit ''scan.jpg'', file_bytes = [0xFF, 0xD8, 0xFF, 0xE0]\<rparr>"

definition whitespace_upload :: UploadFile where
  "whitespace_upload = \<lparr>filename = lit ''blank.txt'', file_bytes = [0x20, 0x0A, 0x09, 0x20]\<rparr>"

definition long_upload :: UploadFile where
  "long_upload =
     \<lparr>filename = lit ''long.txt'', file_bytes = replicate 10000 0x61 @ [0x2E, 0x20, 0x62, 0x2E]\<rparr>"

text \<open>Request bodies the examples below run on.\<close>

definition sample_note :: Note where
  "sample_note = \<lparr>title = lit ''t'', content = lit ''c'', topic = None\<rparr>"

definition empty_note_body :: NoteBody where
  "empty_note_body = \<lparr>title_in = Some [], content_in = Some [], topic_in = None\<rparr>"

definition empty_flashcard_body :: FlashcardBody where
  "empty_flashcard_body = \<lparr>front_in = Some [], back_in = Some [], tag_in = None\<rparr>"

definition one_option_body :: QuestionBody where
  "one_option_body = \<lparr>question_in = Some (lit ''q''), options_in = Some [lit ''only''],
     answer_index_in = Some 0, question_tag_in = None\<rparr>"

definition negative_index_body :: QuestionBody where
  "negative_index_body = \<lparr>question_in = Some (lit ''q''),
     options_in = Some [lit ''a'', lit ''b''], answer_index_in = Some (- 1),
     question_tag_in = None\<rparr>"

definition out_of_range_body :: QuestionBody where
  "out_of_range_body = \<lparr>question_in = Some (lit ''q''),
     options_in = Some [lit ''a'', lit ''b''], answer_index_in = Some 7,
     question_tag_in = None\<rparr>"

text \<open>A store holding two notes, and the text of the long upload.\<close>

definition two_notes_store :: store where
  "two_notes_store = empty_store\<lparr>collections := (\<lambda>_. [])(''note'' :=
       [(0, NoteDoc \<lparr>title = lit ''a'', content = lit ''x'', topic = Some []\<rparr>),
        (1, NoteDoc \<lparr>title = lit ''b'', content = lit ''y'', topic = Some (lit ''math'')\<rparr>)]),
     next_id := 2\<rparr>"

definition long_text :: str where
  "long_text = replicate 10000 97 @ [46, 32, 98, 46]"

section \<open>Properties of the text operations\<close>

lemma split_not_Nil: "split sep s \<noteq> []"
  by (induction s) (auto split: list.splits)

lemma split_no_sep: "x \<in> set (split sep s) \<Longrightarrow> sep \<notin> set x"
  by (induction s arbitrary: x) (auto split: list.splits if_splits)

lemma split_subset: "x \<in> set (split sep s) \<Longrightarrow> set x \<subseteq> set s"
proof (induction s arbitrary: x)
  case Nil
  then show ?case by simp
next
  case (Cons c cs)
  show ?case
  proof (cases "c = sep")
    case True
    with Cons show ?thesis by auto
  next
    case False
    obtain p ps where sp: "split sep cs = p # ps"
      using split_not_Nil [of sep cs] by (cases "split sep cs") auto
    from Cons.prems False sp have "x = c # p \<or> x \<in> set ps" by simp
    moreover have "set p \<subseteq> set cs" using Cons.IH [of p] sp by simp
    moreover have "x \<in> set ps \<Longrightarrow> set x \<subseteq> set cs" using Cons.IH [of x] sp by simp
    ultimately show ?thesis by auto
  qed
qed

lemma join_split: "join [sep] (split sep s) = s"
proof (induction s)
  case Nil
  then show ?case by simp
next
  case (Cons c cs)
  obtain p ps where sp: "split sep cs = p # ps"
    using split_not_Nil [of sep cs] by (cases "split sep cs") auto
  show ?case
  proof (cases "c = sep")
    case True
    with Cons sp show ?thesis by simp
  next
    case False
    with Cons sp show ?thesis by (cases ps) auto
  qed
qed

lemma split_without_sep: "sep \<notin> set a \<Longrightarrow> split sep a = [a]"
  by (induction a) auto

lemma split_append_sep: "sep \<notin> set a \<Longrightarrow> split sep (a @ sep # r) = a # split sep r"
  by (induction a) auto

lemma last_dropWhile: "dropWhile P xs \<noteq> [] \<Longrightarrow> last (dropWhile P xs) = last xs"
  by (induction xs) (auto split: if_splits)

lemma strip_Nil: "strip [] = []"
  by (simp add: strip_def lstrip_def rstrip_def)

lemma set_strip: "set (strip s) \<subseteq> set s"
  unfolding strip_def lstrip_def rstrip_def
  by (metis set_dropWhileD set_rev subsetI)

lemma dropWhile_keep: "s \<noteq> [] \<Longrightarrow> \<not> P (hd s) \<Longrightarrow> dropWhile P s = s"
  by (cases s) auto

lemma strip_last: "strip s \<noteq> [] \<Longrightarrow> \<not> isspace (last (strip s))"
proof -
  assume ne: "strip s \<noteq> []"
  define b where "b = dropWhile isspace (rev (dropWhile isspace s))"
  have sb: "strip s = rev b" by (simp add: strip_def lstrip_def rstrip_def b_def)
  with ne have "b \<noteq> []" by simp
  then have "\<not> isspace (hd b)" unfolding b_def by (rule hd_dropWhile)
  moreover have "last (rev b) = hd b" using \<open>b \<noteq> []\<close> by (simp add: last_rev)
  ultimately show ?thesis using sb by simp
qed

lemma strip_hd: "strip s \<noteq> [] \<Longrightarrow> \<not> isspace (hd (strip s))"
proof -
  assume ne: "strip s \<noteq> []"
  define a where "a = dropWhile isspace s"
  define b where "b = dropWhile isspace (rev a)"
  have sb: "strip s = rev b" by (simp add: strip_def lstrip_def rstrip_def a_def b_def)
  with ne have bne: "b \<noteq> []" by simp
  then have ane: "a \<noteq> []" by (auto simp: b_def)
  have "hd (rev b) = last b" using bne by (simp add: hd_rev)
  also have "\<dots> = last (rev a)" using bne unfolding b_def by (rule last_dropWhile)
  also have "\<dots> = hd a" using ane by (simp add: last_rev)
  finally have "hd (strip s) = hd a" using sb by simp
  moreover have "\<not> isspace (hd a)" using ane unfolding a_def by (rule hd_dropWhile)
  ultimately show ?thesis by simp
qed

lemma strip_fixed: "s \<noteq> [] \<Longrightarrow> \<not> isspace (hd s) \<Longrightarrow> \<not> isspace (last s) \<Longrightarrow> strip s = s"
proof -
  assume ne: "s \<noteq> []" and h: "\<not> isspace (hd s)" and l: "\<not> isspace (last s)"
  have a: "dropWhile isspace s = s" using ne h by (rule dropWhile_keep)
  have "hd (rev s) = last s" using ne by (simp add: hd_rev)
  with l ne have "dropWhile isspace (rev s) = rev s" by (intro dropWhile_keep) auto
  with a show ?thesis by (simp add: strip_def lstrip_def rstrip_def)
qed

lemma strip_strip: "strip (strip s) = strip s"
proof (cases "strip s = []")
  case True
  then show ?thesis by (simp add: strip_Nil)
next
  case False
  then show ?thesis by (intro strip_fixed strip_hd strip_last)
qed

lemma strip_space_Cons: "isspace c \<Longrightarrow> strip (c # s) = strip s"
  by (simp add: strip_def lstrip_def)


lemma lit_period_space: "lit ''. '' = [period, space]"
  by (simp add: lit_def period_def space_def)

lemma lit_period: "lit ''.'' = [period]"
  by (simp add: lit_def period_def)

lemma isspace_space: "isspace space"
  by (simp add: isspace_def space_def)

lemma sentences_of_eq_spec_fragments: "sentences_of text = spec_fragments text"
  by (simp add: sentences_of_def spec_fragments_def spec_normalize_def replace_newlines_def
      filter_map comp_def)

lemma newline_replaced: "newline \<notin> set (replace_newlines s)"
  by (auto simp: replace_newlines_def newline_def space_def)

lemma replace_newlines_id: "newline \<notin> set s \<Longrightarrow> replace_newlines s = s"
  by (induction s) (auto simp: replace_newlines_def)

lemma sentences_of_sentence: "s \<in> set (sentences_of text) \<Longrightarrow> sentence s"
proof -
  assume "s \<in> set (sentences_of text)"
  then obtain x where x: "x \<in> set (split period (replace_newlines text))"
    and ne: "strip x \<noteq> []" and s: "s = strip x"
    by (auto simp: sentences_of_def)
  have "set s \<subseteq> set x" using s set_strip by simp
  moreover have "period \<notin> set x" using x by (rule split_no_sep)
  moreover have "newline \<notin> set x" using split_subset [OF x] newline_replaced by auto
  ultimately show ?thesis using ne s by (auto simp: sentence_def strip_strip)
qed

lemma split_joined:
  "ss \<noteq> [] \<Longrightarrow> \<forall>s\<in>set ss. period \<notin> set s \<Longrightarrow> period \<notin> set pre \<Longrightarrow>
   split period (pre @ join [period, space] ss @ [period]) =
     (pre @ hd ss) # map ((#) space) (tl ss) @ [[]]"
proof (induction ss arbitrary: pre)
  case Nil
  then show ?case by simp
next
  case (Cons s ss)
  show ?case
  proof (cases ss)
    case Nil
    have "split period ((pre @ s) @ period # []) = (pre @ s) # split period []"
      using Cons.prems by (intro split_append_sep) auto
    with Nil show ?thesis by simp
  next
    case (Cons y ys)
    have sp: "period \<notin> set [space]" by (simp add: period_def space_def)
    have "split period ((pre @ s) @ period # ([space] @ join [period, space] ss @ [period])) =
          (pre @ s) # split period ([space] @ join [period, space] ss @ [period])"
      using Cons.prems by (intro split_append_sep) auto
    moreover have "split period ([space] @ join [period, space] ss @ [period]) =
          ([space] @ hd ss) # map ((#) space) (tl ss) @ [[]]"
      using Cons.prems Cons sp by (intro Cons.IH) auto
    ultimately show ?thesis using Cons by simp
  qed
qed

lemma set_join: "set (join sep ss) \<subseteq> set sep \<union> \<Union> (set ` set ss)"
  by (induction sep ss rule: join.induct) auto

lemma strip_sentence_pieces:
  "\<forall>s\<in>set ss. sentence s \<Longrightarrow>
   map strip (filter (\<lambda>s. strip s \<noteq> []) (map ((#) space) ss @ [[]])) = ss"
  by (induction ss) (auto simp: sentence_def strip_space_Cons isspace_space strip_Nil)

lemma sentences_of_joined:
  assumes ne: "ss \<noteq> []" and all: "\<forall>s\<in>set ss. sentence s"
  shows "sentences_of (join [period, space] ss @ [period]) = ss"
proof -
  let ?out = "join [period, space] ss @ [period]"
  have "newline \<notin> set ?out"
    using all set_join [of "[period, space]" ss]
    by (auto simp: sentence_def newline_def period_def space_def)
  then have r: "replace_newlines ?out = ?out" by (rule replace_newlines_id)
  have "split period ([] @ ?out) = ([] @ hd ss) # map ((#) space) (tl ss) @ [[]]"
    using ne all by (intro split_joined) (auto simp: sentence_def)
  then have sp: "split period ?out = hd ss # (map ((#) space) (tl ss) @ [[]])" by simp
  have hd: "sentence (hd ss)" using ne all by simp
  have tl: "\<forall>s\<in>set (tl ss). sentence s" using ne all by (cases ss) auto
  have "sentences_of ?out = hd ss # tl ss"
    unfolding sentences_of_def r sp using hd strip_sentence_pieces [OF tl]
    by (simp add: sentence_def)
  with ne show ?thesis by simp
qed

lemma no_content_fixed:
  "simple_summarize (lit ''No content to summarize.'') = lit ''No content to summarize.''"
  by (simp add: simple_summarize_def sentences_of_def replace_newlines_def lit_def strip_def
      lstrip_def rstrip_def isspace_def period_def newline_def space_def)


text \<open>The summarizer on the inputs the specification lists as testable properties.\<close>

lemma simple_summarize_examples:
  "simple_summarize [] = lit ''No content to summarize.''"
  "simple_summarize (lit '' '') = lit ''No content to summarize.''"
  "simple_summarize (lit ''A. B. C.'') = lit ''A. B. C.''"
  "simple_summarize (lit ''hello world'') = lit ''hello world.''"
  "simple_summarize (lit ''a. b. c. d. e. f. g.'') = lit ''a. b. c. d. e.''"
  by (simp_all add: simple_summarize_def sentences_of_def replace_newlines_def lit_def strip_def
      lstrip_def rstrip_def isspace_def period_def newline_def space_def)

text \<open>
  A text without a period is one fragment: unless it is blank, the summary is the text with
  its newlines replaced, trimmed, and a period appended.
\<close>

lemma simple_summarize_no_period:
  assumes "period \<notin> set txt" and "strip (replace_newlines txt) \<noteq> []"
  shows "simple_summarize txt = strip (replace_newlines txt) @ [period]"
proof -
  have "period \<notin> set (replace_newlines txt)"
    using assms(1) by (auto simp: replace_newlines_def period_def space_def)
  then have "split period (replace_newlines txt) = [replace_newlines txt]"
    by (rule split_without_sep)
  then have "sentences_of txt = [strip (replace_newlines txt)]"
    using assms(2) by (simp add: sentences_of_def)
  then show ?thesis
    by (simp add: simple_summarize_def lit_period)
qed

section \<open>Properties of the store and the handlers\<close>

lemma utf8_ignore_ascii_Cons: "b < 128 \<Longrightarrow> utf8_ignore (b # bs) = b # utf8_ignore bs"
  by simp

lemma utf8_ignore_ascii: "\<forall>b\<in>set bs. b < 128 \<Longrightarrow> utf8_ignore bs = bs"
proof (induction bs)
  case Nil
  show ?case by simp
next
  case (Cons a bs)
  then have "a < 128" and "utf8_ignore bs = bs" by simp_all
  then show ?case by (simp only: utf8_ignore_ascii_Cons)
qed

lemma handler_except: "handler st op = except_500 (try_block st op)"
  by (cases op)
    (simp_all add: create_note_def list_notes_def create_flashcard_def list_flashcards_def
      create_question_def list_questions_def summarize_file_def list_summaries_def)

lemma list_try_fails:
  "fst (list_try st c flt lim) = Inl e \<Longrightarrow>
   snd (list_try st c flt lim) = st\<lparr>round_trips := Suc (round_trips st)\<rparr>"
  by (auto simp: list_try_def get_documents_def split: option.splits)

lemma create_try_fails:
  "fst (create_note_try st n) = Inl e \<Longrightarrow>
     snd (create_note_try st n) = st\<lparr>round_trips := Suc (round_trips st)\<rparr>"
  "fst (create_flashcard_try st c) = Inl e \<Longrightarrow>
     snd (create_flashcard_try st c) = st\<lparr>round_trips := Suc (round_trips st)\<rparr>"
  "fst (create_question_try st q) = Inl e \<Longrightarrow>
     snd (create_question_try st q) = st\<lparr>round_trips := Suc (round_trips st)\<rparr>"
  "fst (summarize_file_try st f) = Inl e \<Longrightarrow>
     snd (summarize_file_try st f) = st\<lparr>round_trips := Suc (round_trips st)\<rparr>"
  by (simp_all add: create_note_try_def create_flashcard_try_def create_question_try_def
      summarize_file_try_def create_document_def Let_def split: option.splits)

lemma try_block_fails:
  "fst (try_block st op) = Inl e \<Longrightarrow>
   snd (try_block st op) = st\<lparr>round_trips := Suc (round_trips st)\<rparr>"
  by (cases op)
    (simp_all add: create_try_fails list_try_fails list_notes_try_def list_flashcards_try_def
      list_questions_try_def list_summaries_try_def)

lemma decode_binary: "decode (file_bytes binary_upload) = []"
  by (simp add: binary_upload_def decode_def continuation_def)

lemma decode_whitespace:
  "decode (file_bytes whitespace_upload) = [32, 10, 9, 32]"
  "strip (decode (file_bytes whitespace_upload)) = []"
  by (simp_all add: whitespace_upload_def decode_def strip_def lstrip_def rstrip_def isspace_def)

lemma placeholder_short: "take 10000 placeholder = placeholder"
  by (simp add: placeholder_def lit_def)

lemma blank_iff: "(decoded = [] \<or> length (strip decoded) = 0) \<longleftrightarrow> strip decoded = []"
  by (auto simp: strip_Nil)

lemma create_document_ok:
  "failure st = None \<Longrightarrow>
   create_document st c d =
     (Inr (id_text (next_id st)),
      st\<lparr>collections := (collections st)(c := collections st c @ [(next_id st, d)]),
         next_id := Suc (next_id st), round_trips := Suc (round_trips st)\<rparr>)"
  by (simp add: create_document_def)

lemma create_document_down:
  "failure st = Some msg \<Longrightarrow>
   create_document st c d = (Inl (StorageError msg), st\<lparr>round_trips := Suc (round_trips st)\<rparr>)"
  by (simp add: create_document_def)

lemma summarize_file_ok:
  "failure st = None \<Longrightarrow>
   summarize_file st f =
     (Return (IdSummary (id_text (next_id st)) (simple_summarize (upload_text f))),
      st\<lparr>collections := (collections st)(''summary'' := collections st ''summary'' @
            [(next_id st, SummaryDoc \<lparr>file_name = filename f,
               raw_text = take 10000 (upload_text f),
               summary = simple_summarize (upload_text f)\<rparr>)]),
         next_id := Suc (next_id st), round_trips := Suc (round_trips st)\<rparr>)"
  by (simp add: summarize_file_def summarize_file_try_def except_500_def create_document_ok Let_def)

lemma summarize_file_down:
  "failure st = Some msg \<Longrightarrow>
   summarize_file st f = (HTTPException 500 msg, st\<lparr>round_trips := Suc (round_trips st)\<rparr>)"
  by (simp add: summarize_file_def summarize_file_try_def except_500_def create_document_down Let_def)

lemma create_ok:
  "failure st = None \<Longrightarrow>
   create_note st n = (Return (IdOnly (id_text (next_id st))),
     st\<lparr>collections := (collections st)(''note'' := collections st ''note'' @ [(next_id st, NoteDoc n)]),
        next_id := Suc (next_id st), round_trips := Suc (round_trips st)\<rparr>)"
  "failure st = None \<Longrightarrow>
   create_flashcard st c = (Return (IdOnly (id_text (next_id st))),
     st\<lparr>collections := (collections st)(''flashcard'' := collections st ''flashcard'' @ [(next_id st, FlashcardDoc c)]),
        next_id := Suc (next_id st), round_trips := Suc (round_trips st)\<rparr>)"
  "failure st = None \<Longrightarrow>
   create_question st q = (Return (IdOnly (id_text (next_id st))),
     st\<lparr>collections := (collections st)(''question'' := collections st ''question'' @ [(next_id st, QuestionDoc q)]),
        next_id := Suc (next_id st), round_trips := Suc (round_trips st)\<rparr>)"
  by (simp_all add: create_note_def create_note_try_def create_flashcard_def
      create_flashcard_try_def create_question_def create_question_try_def except_500_def
      create_document_ok)

lemma filter_on_empty: "filter_on name (Some []) = []" "filter_on name None = []"
  by (simp_all add: filter_on_def truthy_def)

lemma matches_empty: "matches [] d"
  by (simp add: matches_def)

lemma list_try_ok:
  "failure st = None \<Longrightarrow>
   list_try st c [] None =
     (Inr (Documents (ids_to_str (collections st c))), st\<lparr>round_trips := Suc (round_trips st)\<rparr>)"
  by (simp add: list_try_def get_documents_def matches_empty case_prod_beta)

lemma decode_ascii: "\<forall>b\<in>set bs. unat b < 128 \<Longrightarrow> decode bs = map unat bs"
  by (simp add: decode_def utf8_ignore_ascii)

lemma decode_long: "decode (file_bytes long_upload) = long_text"
proof -
  have "\<forall>b\<in>set (file_bytes long_upload). unat b < 128"
    by (auto simp: long_upload_def)
  then have "decode (file_bytes long_upload) = map unat (file_bytes long_upload)"
    by (rule decode_ascii)
  then show ?thesis by (simp add: long_upload_def long_text_def)
qed

lemma sentence_as: "sentence (replicate 10000 97)"
proof -
  have "strip (replicate 10000 97) = replicate 10000 97"
    by (rule strip_fixed) (simp_all add: isspace_def)
  then show ?thesis by (simp add: sentence_def period_def newline_def)
qed

lemma sentence_b: "sentence [98]"
  by (simp add: sentence_def period_def newline_def strip_def lstrip_def rstrip_def isspace_def)

lemma long_text_join: "long_text = join [period, space] [replicate 10000 97, [98]] @ [period]"
  by (simp add: long_text_def period_def space_def)

lemma summarize_long: "simple_summarize long_text = long_text"
proof -
  have "sentences_of long_text = [replicate 10000 97, [98]]"
    unfolding long_text_join using sentence_as sentence_b
    by (intro sentences_of_joined) simp_all
  then show ?thesis
    by (simp add: simple_summarize_def lit_period_space lit_period long_text_join)
qed

lemma strip_long: "strip long_text = long_text"
  by (rule strip_fixed) (simp_all add: long_text_def isspace_def)

lemma upload_text_long: "upload_text long_upload = long_text"
proof -
  have "long_text \<noteq> []" by (simp add: long_text_def)
  then show ?thesis by (simp add: upload_text_def decode_long strip_long Let_def)
qed

lemma take_long: "take 10000 long_text = replicate 10000 97"
  by (simp add: long_text_def)

lemma filename_long: "filename long_upload = lit ''long.txt''"
  by (simp add: long_upload_def)

lemma b_in_long: "98 \<in> set long_text" "length long_text = 10004" "last long_text = 46"
  by (simp_all add: long_text_def)

section \<open>The claims\<close>

text \<open>
  C1. The summarizer follows exactly the steps of the specification: replace every
  newline with a single space; split on the period; trim each fragment and discard the
  fragments that became empty; when no fragment remains return ``No content to
  summarize.''; otherwise join the first five fragments, in order, with period-space and
  append a period. The code's function and the function written from these words agree on
  every input text.
\<close>

theorem simple_summarize_eq_spec: "simple_summarize text = spec_summarize text"
  by (cases "spec_fragments text")
    (simp_all add: simple_summarize_def spec_summarize_def sentences_of_eq_spec_fragments
      lit_period_space lit_period)


theorem simple_summarize_eq_spec_witness:
  "simple_summarize (lit ''Ab. Cd.  e'') = spec_summarize (lit ''Ab. Cd.  e'') \<and>
   spec_fragments (lit ''Ab. Cd.  e'') = [lit ''Ab'', lit ''Cd'', lit ''e'']"
  using simple_summarize_eq_spec [of "lit ''Ab. Cd.  e''"]
  by (simp add: spec_fragments_def spec_normalize_def lit_def strip_def lstrip_def rstrip_def
      isspace_def period_def newline_def space_def)

text \<open>
  C10. The summarizer is idempotent: applied to its own output it returns that output
  unchanged, for every input text (the fixed text ``No content to summarize.'' included).
\<close>

theorem simple_summarize_idempotent:
  "simple_summarize (simple_summarize text) = simple_summarize text"
proof (cases "sentences_of text = []")
  case True
  then have "simple_summarize text = lit ''No content to summarize.''"
    by (simp add: simple_summarize_def)
  then show ?thesis by (simp only: no_content_fixed)
next
  case False
  define sel where "sel = take 5 (sentences_of text)"
  have ne: "sel \<noteq> []" using False by (simp add: sel_def)
  have all: "\<forall>s\<in>set sel. sentence s"
    using sentences_of_sentence [of _ "text"] by (auto simp: sel_def dest: in_set_takeD)
  have out: "simple_summarize text = join [period, space] sel @ [period]"
    using False ne by (simp add: simple_summarize_def sel_def lit_period_space lit_period)
  have "sentences_of (join [period, space] sel @ [period]) = sel"
    using ne all by (rule sentences_of_joined)
  moreover have "take 5 sel = sel" by (simp add: sel_def)
  ultimately have "simple_summarize (join [period, space] sel @ [period]) =
      join [period, space] sel @ [period]"
    using ne by (simp add: simple_summarize_def lit_period_space lit_period)
  with out show ?thesis by simp
qed

theorem simple_summarize_idempotent_witness:
  "simple_summarize (simple_summarize (lit ''a.b. c.d.e.f.g'')) =
     simple_summarize (lit ''a.b. c.d.e.f.g'') \<and>
   simple_summarize (lit ''a.b. c.d.e.f.g'') = lit ''a. b. c. d. e.''"
  using simple_summarize_idempotent [of "lit ''a.b. c.d.e.f.g''"]
  by (simp add: simple_summarize_def sentences_of_def replace_newlines_def lit_def strip_def
      lstrip_def rstrip_def isspace_def period_def newline_def space_def)

text \<open>
  C4. For every upload whose decoded text is empty or whitespace-only (the decoding drops
  undecodable bytes and never raises), the endpoint substitutes the fixed placeholder, and
  the upload is not dropped: the insert the store performs adds to the summary collection
  exactly one Summary record, whose text field is the placeholder and whose summary field is
  the summarizer applied to the placeholder, and the response carries that summary. The
  examples are an upload of four non-text bytes, which decodes to the empty text, and an
  upload of spaces, a newline and a tab.
\<close>

theorem blank_upload_placeholder:
  assumes "decode (file_bytes f) = [] \<or> strip (decode (file_bytes f)) = []"
    and "failure st = None"
  shows "upload_text f = placeholder \<and>
    summarize_file st f =
      (Return (IdSummary (id_text (next_id st)) (simple_summarize placeholder)),
       st\<lparr>collections := (collections st)(''summary'' := collections st ''summary'' @
             [(next_id st, SummaryDoc \<lparr>file_name = filename f, raw_text = placeholder,
                summary = simple_summarize placeholder\<rparr>)]),
          next_id := Suc (next_id st), round_trips := Suc (round_trips st)\<rparr>)"
proof -
  from assms(1) have "strip (decode (file_bytes f)) = []" by (auto simp: strip_Nil)
  then have u: "upload_text f = placeholder" by (simp add: upload_text_def Let_def)
  show ?thesis using u assms(2) by (simp add: summarize_file_ok placeholder_short)
qed

theorem blank_upload_placeholder_witness:
  "decode (file_bytes binary_upload) = [] \<and>
   upload_text binary_upload = placeholder \<and>
   summarize_file empty_store binary_upload =
     (Return (IdSummary (id_text 0) (simple_summarize placeholder)),
      empty_store\<lparr>collections := (collections empty_store)(''summary'' :=
            [(0, SummaryDoc \<lparr>file_name = lit ''scan.jpg'', raw_text = placeholder,
               summary = simple_summarize placeholder\<rparr>)]),
         next_id := Suc 0, round_trips := Suc 0\<rparr>) \<and>
   decode (file_bytes whitespace_upload) = [32, 10, 9, 32] \<and>
   upload_text whitespace_upload = placeholder \<and>
   summarize_file empty_store whitespace_upload =
     (Return (IdSummary (id_text 0) (simple_summarize placeholder)),
      empty_store\<lparr>collections := (collections empty_store)(''summary'' :=
            [(0, SummaryDoc \<lparr>file_name = lit ''blank.txt'', raw_text = placeholder,
               summary = simple_summarize placeholder\<rparr>)]),
         next_id := Suc 0, round_trips := Suc 0\<rparr>)"
proof -
  have h: "failure empty_store = None" by (simp add: empty_store_def)
  have c: "collections empty_store ''summary'' = []" "next_id empty_store = 0"
    "round_trips empty_store = 0"
    by (simp_all add: empty_store_def)
  have n: "filename binary_upload = lit ''scan.jpg''"
    "filename whitespace_upload = lit ''blank.txt''"
    by (simp_all add: binary_upload_def whitespace_upload_def)
  have b: "decode (file_bytes binary_upload) = [] \<or>
      strip (decode (file_bytes binary_upload)) = []"
    by (simp add: decode_binary)
  have w: "decode (file_bytes whitespace_upload) = [] \<or>
      strip (decode (file_bytes whitespace_upload)) = []"
    by (simp only: decode_whitespace(2) simp_thms)
  from blank_upload_placeholder [OF b h] blank_upload_placeholder [OF w h]
  show ?thesis by (simp add: c n decode_binary decode_whitespace(1))
qed

text \<open>
  C6. For every operation and every failure raised while the handler's try block runs, the
  response is the HTTP exception with status 500 whose detail is the failure's text; the
  handler returns that response (the failure does not escape), and the store records exactly
  the one round trip that failed and no other change, so nothing was retried.
\<close>

theorem handler_failure_is_500:
  assumes "fst (try_block st op) = Inl e"
  shows "handler st op =
    (HTTPException 500 (str_exn e), st\<lparr>round_trips := Suc (round_trips st)\<rparr>)"
proof -
  obtain r st' where r: "try_block st op = (r, st')" by (cases "try_block st op")
  with assms have "r = Inl e" by simp
  moreover from try_block_fails [OF assms] r have "st' = st\<lparr>round_trips := Suc (round_trips st)\<rparr>"
    by simp
  ultimately show ?thesis using r by (simp add: handler_except except_500_def)
qed

theorem handler_failure_is_500_witness:
  "fst (try_block unavailable_store (CreateNote sample_note)) =
     Inl (StorageError (lit ''Database not available'')) \<and>
   handler unavailable_store (CreateNote sample_note) =
     (HTTPException 500 (str_exn (StorageError (lit ''Database not available''))),
      unavailable_store\<lparr>round_trips := Suc (round_trips unavailable_store)\<rparr>)"
proof -
  have h: "fst (try_block unavailable_store (CreateNote sample_note)) =
      Inl (StorageError (lit ''Database not available''))"
    by (simp add: create_note_try_def create_document_def unavailable_store_def empty_store_def)
  from handler_failure_is_500 [OF h] h show ?thesis by blast
qed

text \<open>
  C2, as amended. The schemas require the text fields to be present and put no bound on
  their length: a Note request is refused exactly when title or content is absent, a
  Flashcard request exactly when front or back is absent, and a refused request leaves the
  store untouched; a request that carries the required fields is handed to the create
  handler as it is, empty strings included. So a persisted Note has a title and a content
  and a persisted Flashcard a front and a back, each possibly empty.
\<close>

theorem required_text_presence_only:
  "(title_in nb = None \<or> content_in nb = None \<longrightarrow>
      note_errors nb \<noteq> [] \<and>
      post_notes st nb = (RequestValidationError (note_errors nb), st)) \<and>
   (\<forall>t c. title_in nb = Some t \<and> content_in nb = Some c \<longrightarrow>
      validate_Note nb = Inr \<lparr>title = t, content = c, topic = topic_in nb\<rparr> \<and>
      post_notes st nb = create_note st \<lparr>title = t, content = c, topic = topic_in nb\<rparr>) \<and>
   (front_in fb = None \<or> back_in fb = None \<longrightarrow>
      flashcard_errors fb \<noteq> [] \<and>
      post_flashcards st fb = (RequestValidationError (flashcard_errors fb), st)) \<and>
   (\<forall>f k. front_in fb = Some f \<and> back_in fb = Some k \<longrightarrow>
      validate_Flashcard fb = Inr \<lparr>front = f, back' = k, tag = tag_in fb\<rparr> \<and>
      post_flashcards st fb = create_flashcard st \<lparr>front = f, back' = k, tag = tag_in fb\<rparr>)"
  by (auto simp: validate_Note_def validate_Flashcard_def note_errors_def flashcard_errors_def
      required_def post_notes_def post_flashcards_def split: option.splits)

theorem required_text_presence_only_witness:
  "note_errors \<lparr>title_in = None, content_in = Some (lit ''c''), topic_in = None\<rparr> =
     [Missing ''title''] \<and>
   post_notes empty_store \<lparr>title_in = None, content_in = Some (lit ''c''), topic_in = None\<rparr> =
     (RequestValidationError [Missing ''title''], empty_store) \<and>
   flashcard_errors \<lparr>front_in = Some (lit ''f''), back_in = None, tag_in = None\<rparr> =
     [Missing ''back''] \<and>
   post_flashcards empty_store \<lparr>front_in = Some (lit ''f''), back_in = None, tag_in = None\<rparr> =
     (RequestValidationError [Missing ''back''], empty_store)"
  using required_text_presence_only
    [of "\<lparr>title_in = None, content_in = Some (lit ''c''), topic_in = None\<rparr>" empty_store
        "\<lparr>front_in = Some (lit ''f''), back_in = None, tag_in = None\<rparr>"]
  by (simp add: note_errors_def flashcard_errors_def required_def)

text \<open>
  C2 as stated (an empty title, content, front or back is rejected) fails: the Note whose
  title and content are empty strings and the Flashcard whose sides are empty strings pass
  validation and are persisted.
\<close>

theorem empty_required_text_accepted:
  "validate_Note empty_note_body = Inr \<lparr>title = [], content = [], topic = None\<rparr> \<and>
   collections (snd (post_notes empty_store empty_note_body)) ''note'' =
     [(0, NoteDoc \<lparr>title = [], content = [], topic = None\<rparr>)] \<and>
   validate_Flashcard empty_flashcard_body = Inr \<lparr>front = [], back' = [], tag = None\<rparr> \<and>
   collections (snd (post_flashcards empty_store empty_flashcard_body)) ''flashcard'' =
     [(0, FlashcardDoc \<lparr>front = [], back' = [], tag = None\<rparr>)]"
  by (simp add: validate_Note_def validate_Flashcard_def empty_note_body_def
      empty_flashcard_body_def post_notes_def post_flashcards_def create_ok empty_store_def)

text \<open>
  C3. A Question create request whose options have fewer than 2 entries, or whose
  answer\_index is negative, fails validation: the answer is the validation error and the
  store is exactly as it was, so the record never reaches storage.
\<close>

theorem invalid_question_rejected:
  assumes "(\<exists>os. options_in b = Some os \<and> length os < 2) \<or>
           (\<exists>i. answer_index_in b = Some i \<and> i < 0)"
  shows "question_errors b \<noteq> [] \<and>
         validate_Question b = Inl (question_errors b) \<and>
         post_questions st b = (RequestValidationError (question_errors b), st)"
proof -
  from assms have ne: "question_errors b \<noteq> []"
    by (auto simp: question_errors_def)
  then have v: "validate_Question b = Inl (question_errors b)"
    by (simp add: validate_Question_def split: option.splits)
  then show ?thesis using ne by (simp add: post_questions_def)
qed

theorem invalid_question_rejected_witness:
  "post_questions empty_store one_option_body =
     (RequestValidationError [TooFewItems ''options'' 2], empty_store) \<and>
   post_questions empty_store negative_index_body =
     (RequestValidationError [NotGreaterEqual ''answer_index'' 0], empty_store)"
proof -
  have 1: "(\<exists>os. options_in one_option_body = Some os \<and> length os < 2) \<or>
           (\<exists>i. answer_index_in one_option_body = Some i \<and> i < 0)"
    by (simp add: one_option_body_def)
  have 2: "(\<exists>os. options_in negative_index_body = Some os \<and> length os < 2) \<or>
           (\<exists>i. answer_index_in negative_index_body = Some i \<and> i < 0)"
    by (simp add: negative_index_body_def)
  have e1: "question_errors one_option_body = [TooFewItems ''options'' 2]"
    by (simp add: question_errors_def one_option_body_def required_def)
  have e2: "question_errors negative_index_body = [NotGreaterEqual ''answer_index'' 0]"
    by (simp add: question_errors_def negative_index_body_def required_def)
  from invalid_question_rejected [OF 1, of empty_store]
       invalid_question_rejected [OF 2, of empty_store]
  show ?thesis by (simp add: e1 e2)
qed

text \<open>
  C7. Question validation is purely structural: a Question input (one that carries its
  question text) with at least 2 options and a non-negative answer\_index is accepted and
  handed to the create handler, whatever the relation between answer\_index and the number
  of options; the example has answer\_index 7 over two options and is persisted.
\<close>

theorem question_index_not_range_checked:
  assumes "question_in b = Some q" and "options_in b = Some os" and "2 \<le> length os"
    and "answer_index_in b = Some i" and "0 \<le> i"
  shows "validate_Question b =
           Inr \<lparr>question = q, options = os, answer_index = i, question_tag = question_tag_in b\<rparr> \<and>
         post_questions st b =
           create_question st
             \<lparr>question = q, options = os, answer_index = i, question_tag = question_tag_in b\<rparr>"
proof -
  from assms have "question_errors b = []"
    by (simp add: question_errors_def required_def)
  with assms have "validate_Question b =
      Inr \<lparr>question = q, options = os, answer_index = i, question_tag = question_tag_in b\<rparr>"
    by (simp add: validate_Question_def)
  then show ?thesis by (simp add: post_questions_def)
qed

theorem question_index_not_range_checked_witness:
  "int (length [lit ''a'', lit ''b'']) \<le> 7 \<and>
   validate_Question out_of_range_body =
     Inr \<lparr>question = lit ''q'', options = [lit ''a'', lit ''b''], answer_index = 7,
          question_tag = None\<rparr> \<and>
   fst (post_questions empty_store out_of_range_body) = Return (IdOnly (id_text 0)) \<and>
   collections (snd (post_questions empty_store out_of_range_body)) ''question'' =
     [(0, QuestionDoc \<lparr>question = lit ''q'', options = [lit ''a'', lit ''b''],
        answer_index = 7, question_tag = None\<rparr>)]"
  using question_index_not_range_checked
    [of out_of_range_body "lit ''q''" "[lit ''a'', lit ''b'']" 7 empty_store]
  by (simp add: out_of_range_body_def create_ok empty_store_def)

text \<open>
  C5. For every upload, the text field of the persisted Summary record is the first 10,000
  characters of the decoded text (the placeholder where it was substituted), whatever the
  original length: when the store accepts the insert, the summary collection grows by
  exactly that record.
\<close>

theorem stored_text_is_truncated:
  assumes "failure st = None"
  shows "collections (snd (summarize_file st f)) ''summary'' =
           collections st ''summary'' @
             [(next_id st, SummaryDoc \<lparr>file_name = filename f,
                 raw_text = take 10000 (upload_text f),
                 summary = simple_summarize (upload_text f)\<rparr>)] \<and>
         length (take 10000 (upload_text f)) \<le> 10000"
  using assms by (simp add: summarize_file_ok)

theorem stored_text_is_truncated_witness:
  "length (upload_text long_upload) = 10004 \<and>
   collections (snd (summarize_file empty_store long_upload)) ''summary'' =
     [(0, SummaryDoc \<lparr>file_name = lit ''long.txt'', raw_text = replicate 10000 97,
         summary = long_text\<rparr>)]"
proof -
  have h: "failure empty_store = None" by (simp add: empty_store_def)
  have c: "collections empty_store ''summary'' = []" "next_id empty_store = 0"
    by (simp_all add: empty_store_def)
  from stored_text_is_truncated [OF h, of long_upload] show ?thesis
    by (simp add: upload_text_long take_long summarize_long filename_long b_in_long c)
qed

text \<open>
  C8. The persisted summary is computed from the whole decoded text, before the
  truncation: the record's summary field is the summarizer applied to the untruncated text
  while its text field is the first 10,000 characters. For the upload of 10,000 letters a
  followed by ``. b.'' the decoded text is longer than 10,000 characters, the stored summary
  contains the letter b, the stored text does not, and summarizing the stored text would
  have given another result.
\<close>

theorem summary_from_untruncated_text:
  "(failure st = None \<longrightarrow>
      (\<exists>d. collections (snd (summarize_file st f)) ''summary'' =
              collections st ''summary'' @ [(next_id st, SummaryDoc d)] \<and>
            summary d = simple_summarize (upload_text f) \<and>
            raw_text d = take 10000 (upload_text f) \<and>
            fst (summarize_file st f) =
              Return (IdSummary (id_text (next_id st)) (simple_summarize (upload_text f))))) \<and>
   10000 < length (decode (file_bytes long_upload)) \<and>
   simple_summarize (upload_text long_upload) \<noteq>
     simple_summarize (take 10000 (upload_text long_upload)) \<and>
   98 \<in> set (simple_summarize (upload_text long_upload)) \<and>
   98 \<notin> set (take 10000 (upload_text long_upload))"
proof -
  have a: "10000 < length (decode (file_bytes long_upload))"
    by (simp add: decode_long long_text_def)
  have b: "98 \<in> set (simple_summarize (upload_text long_upload))"
    by (simp add: upload_text_long summarize_long b_in_long)
  have c: "98 \<notin> set (take 10000 (upload_text long_upload))"
    by (simp add: upload_text_long take_long)
  have "set (simple_summarize (replicate 10000 97)) \<subseteq> {97, 46}"
  proof -
    have "sentences_of (join [period, space] [replicate 10000 97] @ [period]) = [replicate 10000 97]"
      using sentence_as by (intro sentences_of_joined) simp_all
    then have s1: "simple_summarize (replicate 10000 97 @ [period]) = replicate 10000 97 @ [period]"
      by (simp add: simple_summarize_def lit_period_space lit_period)
    have "replace_newlines (replicate 10000 97) = replicate 10000 97"
      by (rule replace_newlines_id) (simp add: newline_def)
    moreover have "split period (replicate 10000 97) = [replicate 10000 97]"
      by (rule split_without_sep) (simp add: period_def)
    ultimately have "sentences_of (replicate 10000 97) = [replicate 10000 97]"
      using sentence_as by (simp add: sentences_of_def sentence_def)
    then have "simple_summarize (replicate 10000 97) = replicate 10000 97 @ [period]"
      by (simp add: simple_summarize_def lit_period_space lit_period)
    then show ?thesis by (auto simp: period_def)
  qed
  then have "98 \<notin> set (simple_summarize (take 10000 (upload_text long_upload)))"
    by (auto simp: upload_text_long take_long)
  with b have d: "simple_summarize (upload_text long_upload) \<noteq>
     simple_summarize (take 10000 (upload_text long_upload))" by auto
  show ?thesis using a b c d by (simp add: summarize_file_ok)
qed

theorem summary_from_untruncated_text_witness:
  "fst (summarize_file empty_store long_upload) = Return (IdSummary (id_text 0) long_text) \<and>
   collections (snd (summarize_file empty_store long_upload)) ''summary'' =
     [(0, SummaryDoc \<lparr>file_name = lit ''long.txt'', raw_text = replicate 10000 97,
         summary = long_text\<rparr>)] \<and>
   last long_text = 46 \<and> 98 \<in> set long_text \<and> 98 \<notin> set (replicate 10000 (97::nat))"
proof -
  have c: "failure empty_store = None" "collections empty_store ''summary'' = []"
    "next_id empty_store = 0"
    by (simp_all add: empty_store_def)
  from summary_from_untruncated_text [of empty_store long_upload]
  obtain d where d: "collections (snd (summarize_file empty_store long_upload)) ''summary'' =
        [(0, SummaryDoc d)]"
      "summary d = long_text" "raw_text d = replicate 10000 97"
      "fst (summarize_file empty_store long_upload) = Return (IdSummary (id_text 0) long_text)"
    by (auto simp: c upload_text_long summarize_long take_long)
  have "SummaryDoc d = SummaryDoc \<lparr>file_name = lit ''long.txt'', raw_text = replicate 10000 97,
         summary = long_text\<rparr>"
    using d(1) by (simp add: summarize_file_ok c upload_text_long summarize_long take_long
        filename_long)
  with d show ?thesis by (simp add: b_in_long)
qed

text \<open>
  C9. A list request whose filter parameter (topic for notes, tag for flashcards and
  questions) is the empty string is treated as if no filter were supplied: the filter
  handed to the query is empty, the answer is the one the request without the parameter
  gets, and when the query succeeds it is every document of the collection, not only those
  whose field is the empty string.
\<close>

theorem empty_filter_value_lists_all:
  "filter_on name (Some []) = [] \<and>
   list_notes st (Some []) = list_notes st None \<and>
   list_flashcards st (Some []) = list_flashcards st None \<and>
   list_questions st (Some []) = list_questions st None \<and>
   (failure st = None \<longrightarrow>
      fst (list_notes st (Some [])) = Return (Documents (ids_to_str (collections st ''note''))) \<and>
      fst (list_flashcards st (Some [])) =
        Return (Documents (ids_to_str (collections st ''flashcard''))) \<and>
      fst (list_questions st (Some [])) =
        Return (Documents (ids_to_str (collections st ''question''))))"
  by (simp add: filter_on_empty list_notes_def list_notes_try_def list_flashcards_def
      list_flashcards_try_def list_questions_def list_questions_try_def list_try_ok
      except_500_def)

theorem empty_filter_value_lists_all_witness:
  "fst (list_notes two_notes_store (Some [])) =
     Return (Documents
       [(id_text 0, NoteDoc \<lparr>title = lit ''a'', content = lit ''x'', topic = Some []\<rparr>),
        (id_text 1, NoteDoc \<lparr>title = lit ''b'', content = lit ''y'', topic = Some (lit ''math'')\<rparr>)]) \<and>
   fst (get_documents two_notes_store ''note'' [(''topic'', [])] None) =
     Inr [(0, NoteDoc \<lparr>title = lit ''a'', content = lit ''x'', topic = Some []\<rparr>)]"
proof -
  have h: "failure two_notes_store = None"
    by (simp add: two_notes_store_def empty_store_def)
  have c: "collections two_notes_store ''note'' =
      [(0, NoteDoc \<lparr>title = lit ''a'', content = lit ''x'', topic = Some []\<rparr>),
       (1, NoteDoc \<lparr>title = lit ''b'', content = lit ''y'', topic = Some (lit ''math'')\<rparr>)]"
    by (simp add: two_notes_store_def empty_store_def)
  from empty_filter_value_lists_all [of "''topic''" two_notes_store] h
  have "fst (list_notes two_notes_store (Some [])) =
      Return (Documents (ids_to_str (collections two_notes_store ''note'')))"
    by blast
  then have a: "fst (list_notes two_notes_store (Some [])) =
     Return (Documents
       [(id_text 0, NoteDoc \<lparr>title = lit ''a'', content = lit ''x'', topic = Some []\<rparr>),
        (id_text 1, NoteDoc \<lparr>title = lit ''b'', content = lit ''y'', topic = Some (lit ''math'')\<rparr>)])"
    by (simp only: c ids_to_str_def list.map prod.case)
  have b: "fst (get_documents two_notes_store ''note'' [(''topic'', [])] None) =
     Inr [(0, NoteDoc \<lparr>title = lit ''a'', content = lit ''x'', topic = Some []\<rparr>)]"
    by (simp add: get_documents_def h c matches_def lit_def)
  from a b show ?thesis by (rule conjI)
qed

end
